theory Spec2Isabelle
  imports Main
begin

section \<open>The espeak JNI bridge (espeak_jni.cpp)\<close>

text \<open>
  The translation unit keeps two file-level variables and exports three native methods of
  the class \<open>EspeakPhonemizerNative\<close>: \<open>nativeInit\<close>, \<open>nativePhonemize\<close> and
  \<open>nativeCleanup\<close>. Each method is embedded as a function from its arguments and the
  values of the two variables to its outcome: the value handed back to the Java side, the
  calls made to the Android log, and the new values of the variables.
\<close>

subsection \<open>Global state\<close>

text \<open>
  \<^verbatim>\<open>static bool g_initialized = false;\<close>
  \<^verbatim>\<open>static std::string g_dataPath;\<close>
  A \<open>std::string\<close> with static storage and no initialiser is the empty string.
\<close>

record globals =
  g_initialized :: bool
  g_dataPath :: string

definition initial_globals :: globals where
  "initial_globals = \<lparr>g_initialized = False, g_dataPath = []\<rparr>"

subsection \<open>Java strings\<close>

text \<open>
  A \<open>jstring\<close> is a reference: either null or a \<open>java.lang.String\<close>. The characters
  carried by \<open>JString\<close> are the ones \<open>GetStringUTFChars\<close> hands over for it (modified
  UTF-8, which contains no zero byte, so that \<open>std::string(const char*)\<close> copies all of
  them). The JNI functions do not accept a null reference: the call has no defined
  behaviour then, and the source makes it unchecked, so a null argument is a fault of the
  method. Exhausted memory, in \<open>GetStringUTFChars\<close> as in the allocations of
  \<open>std::string\<close>, is outside this model.
\<close>

datatype jstring = JNull | JString string

datatype fault = NullReference

fun GetStringUTFChars :: "jstring \<Rightarrow> fault + string" where
  "GetStringUTFChars JNull = Inl NullReference"
| "GetStringUTFChars (JString cs) = Inr cs"

subsection \<open>The Android log\<close>

text \<open>
  \<^verbatim>\<open>#define TAG "EspeakJNI"\<close>
  \<^verbatim>\<open>#define LOGI(...) __android_log_print(ANDROID_LOG_INFO, TAG, __VA_ARGS__)\<close>
  \<^verbatim>\<open>#define LOGE(...) __android_log_print(ANDROID_LOG_ERROR, TAG, __VA_ARGS__)\<close>
  A log call is recorded with its priority, tag, format string and the string arguments
  of the format; the text is not rendered.
\<close>

datatype log_priority = ANDROID_LOG_INFO | ANDROID_LOG_ERROR

record log_call =
  priority :: log_priority
  tag :: string
  fmt :: string
  args :: "string list"

definition TAG :: string where
  "TAG = ''EspeakJNI''"

definition LOGI :: "string \<Rightarrow> string list \<Rightarrow> log_call" where
  "LOGI f as = \<lparr>priority = ANDROID_LOG_INFO, tag = TAG, fmt = f, args = as\<rparr>"

definition LOGE :: "string \<Rightarrow> string list \<Rightarrow> log_call" where
  "LOGE f as = \<lparr>priority = ANDROID_LOG_ERROR, tag = TAG, fmt = f, args = as\<rparr>"

subsection \<open>The native methods\<close>

text \<open>
  A method either faults or returns a value of type \<open>'r\<close> together with the log calls
  it made and the globals it leaves.
\<close>

type_synonym 'r outcome = "fault + ('r \<times> log_call list \<times> globals)"

definition return_value :: "'r outcome \<Rightarrow> fault + 'r" where
  "return_value = map_sum id fst"

definition globals_after :: "'r outcome \<Rightarrow> fault + globals" where
  "globals_after = map_sum id (snd \<circ> snd)"

type_synonym jboolean = bool

definition JNI_TRUE :: jboolean where
  "JNI_TRUE = True"

text \<open>
  \<^verbatim>\<open>const char* path = env->GetStringUTFChars(dataPath, nullptr);\<close>
  \<^verbatim>\<open>g_dataPath = std::string(path);\<close>
  \<^verbatim>\<open>env->ReleaseStringUTFChars(dataPath, path);\<close>
  \<^verbatim>\<open>LOGI("Espeak mock init with data path: %s", g_dataPath.c_str());\<close>
  \<^verbatim>\<open>g_initialized = true;\<close>
  \<^verbatim>\<open>return JNI_TRUE;\<close>
  Releasing the characters changes neither variable.
\<close>

definition nativeInit :: "jstring \<Rightarrow> globals \<Rightarrow> jboolean outcome" where
  "nativeInit dataPath g =
     (case GetStringUTFChars dataPath of
        Inl e \<Rightarrow> Inl e
      | Inr path \<Rightarrow>
          let g1 = g\<lparr>g_dataPath := path\<rparr>;
              l1 = LOGI ''Espeak mock init with data path: %s'' [g_dataPath g1];
              g2 = g1\<lparr>g_initialized := True\<rparr>
          in Inr (JNI_TRUE, [l1], g2))"

text \<open>
  The local variables of \<open>nativePhonemize\<close> once line 57 has run, on the path taken when
  \<open>g_initialized\<close> holds:
  \<^verbatim>\<open>const char* inputText = env->GetStringUTFChars(text, nullptr);\<close>
  \<^verbatim>\<open>const char* voiceId = env->GetStringUTFChars(voice, nullptr);\<close>
  \<^verbatim>\<open>std::string result = std::string(inputText);\<close>
\<close>

record phonemize_locals =
  inputText :: string
  voiceId :: string
  result :: string

definition nativePhonemize_locals :: "jstring \<Rightarrow> jstring \<Rightarrow> fault + phonemize_locals" where
  "nativePhonemize_locals text voice =
     (case GetStringUTFChars text of
        Inl e \<Rightarrow> Inl e
      | Inr it \<Rightarrow>
          (case GetStringUTFChars voice of
             Inl e \<Rightarrow> Inl e
           | Inr vi \<Rightarrow> Inr \<lparr>inputText = it, voiceId = vi, result = it\<rparr>))"

text \<open>
  \<^verbatim>\<open>if (!g_initialized) { LOGE("Espeak not initialized"); return nullptr; }\<close>
  \<^verbatim>\<open>...\<close>
  \<^verbatim>\<open>LOGI("Mock phonemize: text='%s', voice='%s'", inputText, voiceId);\<close>
  \<^verbatim>\<open>std::string result = std::string(inputText);\<close>
  \<^verbatim>\<open>env->ReleaseStringUTFChars(text, inputText);\<close>
  \<^verbatim>\<open>env->ReleaseStringUTFChars(voice, voiceId);\<close>
  \<^verbatim>\<open>return nullptr;\<close>
  The locals are dropped at the return: nothing of them reaches the value returned or the
  globals.
\<close>

definition phonemize_fmt :: string where
  "phonemize_fmt = ''Mock phonemize: text='' @ [CHR 0x27] @ ''%s'' @ [CHR 0x27]
                     @ '', voice='' @ [CHR 0x27] @ ''%s'' @ [CHR 0x27]"

definition nativePhonemize :: "jstring \<Rightarrow> jstring \<Rightarrow> globals \<Rightarrow> jstring outcome" where
  "nativePhonemize text voice g =
     (if \<not> g_initialized g then Inr (JNull, [LOGE ''Espeak not initialized'' []], g)
      else
        case nativePhonemize_locals text voice of
          Inl e \<Rightarrow> Inl e
        | Inr locals \<Rightarrow>
            Inr (JNull, [LOGI phonemize_fmt [inputText locals, voiceId locals]], g))"

text \<open>
  \<^verbatim>\<open>LOGI("Espeak cleanup");\<close>
  \<^verbatim>\<open>g_initialized = false;\<close>
\<close>

definition nativeCleanup :: "globals \<Rightarrow> unit outcome" where
  "nativeCleanup g = Inr ((), [LOGI ''Espeak cleanup'' []], g\<lparr>g_initialized := False\<rparr>)"

subsection \<open>Sequences of calls from the host\<close>

text \<open>
  The host calls the three methods one after the other on the same globals. A fault ends
  the process, so nothing runs after it.
\<close>

datatype call =
    NativeInit jstring
  | NativePhonemize jstring jstring
  | NativeCleanup

datatype jvalue = JBoolean jboolean | JObject jstring | JVoid

fun invoke :: "call \<Rightarrow> globals \<Rightarrow> jvalue outcome" where
  "invoke (NativeInit dataPath) g = map_sum id (map_prod JBoolean id) (nativeInit dataPath g)"
| "invoke (NativePhonemize text voice) g =
     map_sum id (map_prod JObject id) (nativePhonemize text voice g)"
| "invoke NativeCleanup g = map_sum id (map_prod (\<lambda>_. JVoid) id) (nativeCleanup g)"

fun run :: "call list \<Rightarrow> globals \<Rightarrow> jvalue list outcome" where
  "run [] g = Inr ([], [], g)"
| "run (c # cs) g =
     (case invoke c g of
        Inl e \<Rightarrow> Inl e
      | Inr (r, out, g') \<Rightarrow>
          (case run cs g' of
             Inl e \<Rightarrow> Inl e
           | Inr (rs, outs, g'') \<Rightarrow> Inr (r # rs, out @ outs, g'')))"

text \<open>A call whose string arguments are all proper strings, and a call to \<open>nativeInit\<close>.\<close>

fun proper_args :: "call \<Rightarrow> bool" where
  "proper_args (NativeInit (JString _)) = True"
| "proper_args (NativePhonemize (JString _) (JString _)) = True"
| "proper_args NativeCleanup = True"
| "proper_args _ = False"

fun is_init :: "call \<Rightarrow> bool" where
  "is_init (NativeInit _) = True"
| "is_init _ = False"

text \<open>
  The reply the specification's interface table gives for each operation: the success flag
  for initialize, the absent marker for phonemize, nothing for cleanup.
\<close>

fun expected_reply :: "call \<Rightarrow> jvalue" where
  "expected_reply (NativeInit _) = JBoolean JNI_TRUE"
| "expected_reply (NativePhonemize _ _) = JObject JNull"
| "expected_reply NativeCleanup = JVoid"

subsection \<open>Lowercasing, as the comment in \<open>nativePhonemize\<close> words it\<close>

text \<open>
  \<^verbatim>\<open>// For now, return the input text lowercased as a fallback\<close>
  The comment's lowercasing, in the C locale: the letters \<open>A\<close> to \<open>Z\<close> move to
  \<open>a\<close> to \<open>z\<close>. The method contains no such step; this definition is what the comment
  describes, to compare the local \<open>result\<close> with.
\<close>

definition comment_tolower :: "char \<Rightarrow> char" where
  "comment_tolower c =
     (let n = (of_char c :: nat) in if 65 \<le> n \<and> n \<le> 90 then char_of (n + 32) else c)"

definition comment_lowercased :: "string \<Rightarrow> string" where
  "comment_lowercased = map comment_tolower"

section \<open>Properties\<close>

subsection \<open>Runs of calls\<close>

lemma run_phonemize_not_ready:
  "\<not> g_initialized g \<Longrightarrow>
     run (map (\<lambda>(text, voice). NativePhonemize text voice) tvs) g =
       Inr (map (\<lambda>_. JObject JNull) tvs,
            map (\<lambda>_. LOGE ''Espeak not initialized'' []) tvs, g)"
  by (induction tvs) (auto simp: nativePhonemize_def)

lemma run_replicate_cleanup:
  "run (replicate (Suc n) NativeCleanup) g =
     Inr (replicate (Suc n) JVoid, replicate (Suc n) (LOGI ''Espeak cleanup'' []),
          g\<lparr>g_initialized := False\<rparr>)"
  by (induction n arbitrary: g) (simp_all add: nativeCleanup_def)

lemma invoke_proper:
  "proper_args c \<Longrightarrow> \<exists>out g'. invoke c g = Inr (expected_reply c, out, g')"
  by (cases c rule: proper_args.cases)
     (simp_all add: nativeInit_def nativePhonemize_def nativePhonemize_locals_def
        nativeCleanup_def)

lemma run_proper:
  "list_all proper_args cs \<Longrightarrow> \<exists>out g'. run cs g = Inr (map expected_reply cs, out, g')"
proof (induction cs arbitrary: g)
  case Nil
  show ?case by simp
next
  case (Cons c cs)
  from Cons.prems have c: "proper_args c" and cs: "list_all proper_args cs"
    by simp_all
  from invoke_proper [OF c] obtain out g1
    where i: "invoke c g = Inr (expected_reply c, out, g1)"
    by blast
  from Cons.IH [OF cs] obtain outs g2
    where r: "run cs g1 = Inr (map expected_reply cs, outs, g2)"
    by blast
  show ?case using i r by simp
qed

lemma invoke_keeps_path:
  "\<not> is_init c \<Longrightarrow> invoke c g = Inr (r, out, g') \<Longrightarrow> g_dataPath g' = g_dataPath g"
  by (cases c)
     (auto simp: nativePhonemize_def nativeCleanup_def split: if_splits sum.splits)

lemma run_keeps_path:
  "list_all (\<lambda>c. \<not> is_init c) cs \<Longrightarrow> run cs g = Inr (rs, out, g') \<Longrightarrow>
     g_dataPath g' = g_dataPath g"
proof (induction cs arbitrary: g rs out)
  case Nil
  then show ?case by simp
next
  case (Cons c cs)
  from Cons.prems(2) obtain r o1 g1 rs' o2
    where i: "invoke c g = Inr (r, o1, g1)" and t: "run cs g1 = Inr (rs', o2, g')"
    by (auto split: sum.splits prod.splits)
  from Cons.prems(1) have "\<not> is_init c" and "list_all (\<lambda>c. \<not> is_init c) cs"
    by simp_all
  with i t Cons.IH show ?case
    by (metis invoke_keeps_path)
qed

subsection \<open>Conversion while not ready\<close>

text \<open>
  C1. Whenever \<open>g_initialized\<close> is false, \<open>nativePhonemize\<close> returns the null reference
  and leaves the globals as they were, whatever the two arguments are (null references
  included, since the check comes before any use of them). So any number of conversions
  from the initial globals, before any \<open>nativeInit\<close>, all return null, and so do any
  number of conversions that follow a \<open>nativeCleanup\<close>. The outcome is a function of the
  arguments and the globals, so it is the same every time.
\<close>

theorem nativePhonemize_not_ready:
  "\<not> g_initialized g \<Longrightarrow>
     nativePhonemize text voice g = Inr (JNull, [LOGE ''Espeak not initialized'' []], g)
     \<and> run (map (\<lambda>(text, voice). NativePhonemize text voice) tvs) initial_globals =
         Inr (map (\<lambda>_. JObject JNull) tvs,
              map (\<lambda>_. LOGE ''Espeak not initialized'' []) tvs, initial_globals)
     \<and> run (NativeCleanup # map (\<lambda>(text, voice). NativePhonemize text voice) tvs) g0 =
         Inr (JVoid # map (\<lambda>_. JObject JNull) tvs,
              LOGI ''Espeak cleanup'' [] # map (\<lambda>_. LOGE ''Espeak not initialized'' []) tvs,
              g0\<lparr>g_initialized := False\<rparr>)"
  by (simp add: nativePhonemize_def run_phonemize_not_ready initial_globals_def
        nativeCleanup_def)

text \<open>
  The hypothesis of C1 at globals that an earlier \<open>nativeInit\<close> and \<open>nativeCleanup\<close>
  left behind, with a null voice.
\<close>

theorem nativePhonemize_not_ready_witness:
  "\<not> g_initialized \<lparr>g_initialized = False, g_dataPath = ''/data/voices''\<rparr>
   \<and> nativePhonemize (JString ''hello'') JNull
        \<lparr>g_initialized = False, g_dataPath = ''/data/voices''\<rparr> =
       Inr (JNull, [LOGE ''Espeak not initialized'' []],
            \<lparr>g_initialized = False, g_dataPath = ''/data/voices''\<rparr>)"
  using nativePhonemize_not_ready
    [of "\<lparr>g_initialized = False, g_dataPath = ''/data/voices''\<rparr>" "JString ''hello''" JNull]
  by simp

subsection \<open>The stub never produces phonemes\<close>

text \<open>
  C2. For every text, every voice and every value of the globals, ready or not,
  \<open>nativePhonemize\<close> returns the null reference. With arbitrary references as arguments
  the only other outcome is the fault of a null argument in the ready state; a string is
  never returned.
\<close>

theorem nativePhonemize_returns_null:
  "return_value (nativePhonemize (JString text) (JString voice) g) = Inr JNull
   \<and> return_value (nativePhonemize t v g) =
       (if g_initialized g \<and> (t = JNull \<or> v = JNull) then Inl NullReference else Inr JNull)"
  by (cases t; cases v)
     (simp_all add: return_value_def nativePhonemize_def nativePhonemize_locals_def)

subsection \<open>Initialisation\<close>

text \<open>
  C3. For every data path and every value of the globals, \<open>nativeInit\<close> stores the path
  in \<open>g_dataPath\<close>, sets \<open>g_initialized\<close> and returns \<open>JNI_TRUE\<close>. A second
  \<open>nativeInit\<close> right after the first returns \<open>JNI_TRUE\<close> as well and leaves the
  second path recorded.
\<close>

theorem nativeInit_records_path:
  "nativeInit (JString path) g =
     Inr (JNI_TRUE, [LOGI ''Espeak mock init with data path: %s'' [path]],
          \<lparr>g_initialized = True, g_dataPath = path\<rparr>)
   \<and> run [NativeInit (JString path), NativeInit (JString path')] g =
       Inr ([JBoolean JNI_TRUE, JBoolean JNI_TRUE],
            [LOGI ''Espeak mock init with data path: %s'' [path],
             LOGI ''Espeak mock init with data path: %s'' [path']],
            \<lparr>g_initialized = True, g_dataPath = path'\<rparr>)"
  by (simp add: nativeInit_def)

subsection \<open>Cleanup\<close>

text \<open>
  C4. \<open>nativeCleanup\<close> returns normally from every value of the globals and leaves
  \<open>g_initialized\<close> false. Any positive number of cleanups in a row all return, and
  the flag is false afterwards; from the initial globals, where \<open>nativeInit\<close> never
  ran, they leave the initial globals.
\<close>

theorem nativeCleanup_clears_flag:
  "nativeCleanup g = Inr ((), [LOGI ''Espeak cleanup'' []], g\<lparr>g_initialized := False\<rparr>)
   \<and> \<not> g_initialized (g\<lparr>g_initialized := False\<rparr>)
   \<and> run (replicate (Suc n) NativeCleanup) g =
       Inr (replicate (Suc n) JVoid, replicate (Suc n) (LOGI ''Espeak cleanup'' []),
            g\<lparr>g_initialized := False\<rparr>)
   \<and> run (replicate (Suc n) NativeCleanup) initial_globals =
       Inr (replicate (Suc n) JVoid, replicate (Suc n) (LOGI ''Espeak cleanup'' []),
            initial_globals)"
proof -
  have "initial_globals\<lparr>g_initialized := False\<rparr> = initial_globals"
    by (simp add: initial_globals_def)
  with run_replicate_cleanup [of n initial_globals] run_replicate_cleanup [of n g]
  show ?thesis
    by (simp add: nativeCleanup_def)
qed

text \<open>
  C5, as amended. \<open>nativeCleanup\<close> resets the flag only: afterwards \<open>g_initialized\<close>
  has its initial value and \<open>g_dataPath\<close> is what it was before the call.
\<close>

theorem nativeCleanup_resets_flag_only:
  "globals_after (nativeCleanup g) =
     Inr \<lparr>g_initialized = g_initialized initial_globals, g_dataPath = g_dataPath g\<rparr>"
  by (simp add: globals_after_def nativeCleanup_def initial_globals_def)

text \<open>
  C5 as stated, that both variables are back in their initial condition after a cleanup,
  fails: after \<open>nativeInit\<close> with \<open>/data/voices\<close> and a cleanup the path is still
  recorded, and the globals differ from the initial ones.
\<close>

theorem nativeCleanup_resets_all_counterexample:
  "run [NativeInit (JString ''/data/voices''), NativeCleanup] initial_globals =
     Inr ([JBoolean JNI_TRUE, JVoid],
          [LOGI ''Espeak mock init with data path: %s'' [''/data/voices''],
           LOGI ''Espeak cleanup'' []],
          \<lparr>g_initialized = False, g_dataPath = ''/data/voices''\<rparr>)
   \<and> \<lparr>g_initialized = False, g_dataPath = ''/data/voices''\<rparr> \<noteq> initial_globals"
  by (simp add: nativeInit_def nativeCleanup_def initial_globals_def)

subsection \<open>Conversion leaves the globals alone\<close>

text \<open>
  C6. For every text, every voice and every value of the globals, the globals after
  \<open>nativePhonemize\<close> are the globals before it; in particular ready globals stay ready.
  With arbitrary references as arguments the only other outcome is the fault of a null
  argument in the ready state, after which there are no globals to speak of.
\<close>

theorem nativePhonemize_keeps_globals:
  "globals_after (nativePhonemize (JString text) (JString voice) g) = Inr g
   \<and> globals_after (nativePhonemize (JString text) (JString voice)
        \<lparr>g_initialized = True, g_dataPath = path\<rparr>) =
       Inr \<lparr>g_initialized = True, g_dataPath = path\<rparr>
   \<and> globals_after (nativePhonemize t v g) =
       (if g_initialized g \<and> (t = JNull \<or> v = JNull) then Inl NullReference else Inr g)"
  by (cases t; cases v)
     (simp_all add: globals_after_def nativePhonemize_def nativePhonemize_locals_def)

subsection \<open>The scenario of the specification\<close>

text \<open>
  C7. From the initial globals, \<open>nativeInit\<close> with \<open>/data/voices\<close>,
  \<open>nativePhonemize\<close> of \<open>hello\<close> with voice \<open>en-us\<close>, \<open>nativeCleanup\<close> and the
  same \<open>nativePhonemize\<close> again return, in this order, \<open>JNI_TRUE\<close>, null, nothing
  (normally) and null.
\<close>

theorem scenario_init_convert_cleanup_convert:
  "run [NativeInit (JString ''/data/voices''),
        NativePhonemize (JString ''hello'') (JString ''en-us''),
        NativeCleanup,
        NativePhonemize (JString ''hello'') (JString ''en-us'')] initial_globals =
     Inr ([JBoolean JNI_TRUE, JObject JNull, JVoid, JObject JNull],
          [LOGI ''Espeak mock init with data path: %s'' [''/data/voices''],
           LOGI phonemize_fmt [''hello'', ''en-us''],
           LOGI ''Espeak cleanup'' [],
           LOGE ''Espeak not initialized'' []],
          \<lparr>g_initialized = False, g_dataPath = ''/data/voices''\<rparr>)"
  by (simp add: nativeInit_def nativePhonemize_def nativePhonemize_locals_def
        nativeCleanup_def initial_globals_def)

subsection \<open>Faults\<close>

text \<open>
  C8, as amended. From every value of the globals, every sequence of calls whose string
  arguments are all proper strings runs to its end: each call returns, \<open>nativeInit\<close>
  with \<open>JNI_TRUE\<close>, \<open>nativePhonemize\<close> with null and \<open>nativeCleanup\<close> with nothing,
  so that the only failure handed to the caller is the null of \<open>nativePhonemize\<close>.
\<close>

theorem proper_calls_return:
  "list_all proper_args cs \<Longrightarrow>
     (\<exists>out g'. run cs g = Inr (map expected_reply cs, out, g'))
     \<and> list_all (\<lambda>r. r = JBoolean JNI_TRUE \<or> r = JObject JNull \<or> r = JVoid)
         (map expected_reply cs)"
proof
  assume "list_all proper_args cs"
  then show "\<exists>out g'. run cs g = Inr (map expected_reply cs, out, g')"
    by (rule run_proper)
next
  have "r = JBoolean JNI_TRUE \<or> r = JObject JNull \<or> r = JVoid" if "r = expected_reply c"
    for r c
    using that by (cases c) simp_all
  then show "list_all (\<lambda>r. r = JBoolean JNI_TRUE \<or> r = JObject JNull \<or> r = JVoid)
               (map expected_reply cs)"
    by (simp add: list_all_iff)
qed

text \<open>The hypothesis of C8 at a re-initialisation followed by a conversion and a cleanup.\<close>

theorem proper_calls_return_witness:
  "list_all proper_args
     [NativeInit (JString ''/data/voices''), NativeInit (JString ''/data/other''),
      NativePhonemize (JString ''Hello'') (JString ''en-us''), NativeCleanup]
   \<and> (\<exists>out g'.
        run [NativeInit (JString ''/data/voices''), NativeInit (JString ''/data/other''),
             NativePhonemize (JString ''Hello'') (JString ''en-us''), NativeCleanup]
          \<lparr>g_initialized = True, g_dataPath = ''/data/old''\<rparr> =
        Inr ([JBoolean JNI_TRUE, JBoolean JNI_TRUE, JObject JNull, JVoid], out, g'))"
  using proper_calls_return
    [of "[NativeInit (JString ''/data/voices''), NativeInit (JString ''/data/other''),
          NativePhonemize (JString ''Hello'') (JString ''en-us''), NativeCleanup]"
        "\<lparr>g_initialized = True, g_dataPath = ''/data/old''\<rparr>"]
  by simp

text \<open>
  C8 as stated, that the methods return on every input, fails at a null reference:
  \<open>nativeInit\<close> hands a null \<open>dataPath\<close> to \<open>GetStringUTFChars\<close> unchecked, and so
  does \<open>nativePhonemize\<close> with a null \<open>text\<close> once \<open>g_initialized\<close> holds.
\<close>

theorem null_argument_counterexample:
  "nativeInit JNull initial_globals = Inl NullReference
   \<and> nativePhonemize JNull (JString ''en-us'')
        \<lparr>g_initialized = True, g_dataPath = ''/data/voices''\<rparr> = Inl NullReference"
  by (simp add: nativeInit_def nativePhonemize_def nativePhonemize_locals_def)

subsection \<open>The discarded local\<close>

text \<open>
  C9. In the ready state \<open>nativePhonemize\<close> builds the local \<open>result\<close> and returns null
  instead of it. The local is a copy of the text as it is, for every text; for \<open>Hello\<close>
  it is \<open>Hello\<close>, whereas the lowercased text of the comment is \<open>hello\<close>.
\<close>

theorem result_is_verbatim_copy:
  "map_sum id result (nativePhonemize_locals (JString text) (JString voice)) = Inr text
   \<and> map_sum id result (nativePhonemize_locals (JString ''Hello'') (JString ''en-us'')) =
       Inr ''Hello''
   \<and> comment_lowercased ''Hello'' = ''hello''
   \<and> map_sum id result (nativePhonemize_locals (JString ''Hello'') (JString ''en-us'')) \<noteq>
       Inr (comment_lowercased ''Hello'')
   \<and> nativePhonemize (JString ''Hello'') (JString ''en-us'')
        \<lparr>g_initialized = True, g_dataPath = ''/data/voices''\<rparr> =
       Inr (JNull, [LOGI phonemize_fmt [''Hello'', ''en-us'']],
            \<lparr>g_initialized = True, g_dataPath = ''/data/voices''\<rparr>)"
proof -
  have "comment_lowercased ''Hello'' = ''hello''"
    by code_simp
  then show ?thesis
    by (simp add: nativePhonemize_def nativePhonemize_locals_def)
qed

subsection \<open>The data path\<close>

text \<open>
  C10. \<open>nativePhonemize\<close> and \<open>nativeCleanup\<close> leave \<open>g_dataPath\<close> as it was, from
  every value of the globals. Hence a sequence of conversions and cleanups, in any number
  and order, ends with the data path it started with, and after a \<open>nativeInit\<close> such a
  sequence ends with the path that \<open>nativeInit\<close> recorded.
\<close>

theorem dataPath_changed_by_init_only:
  "list_all proper_args cs \<Longrightarrow> list_all (\<lambda>c. \<not> is_init c) cs \<Longrightarrow>
     map_sum id g_dataPath (globals_after (nativePhonemize (JString text) (JString voice) g)) =
       Inr (g_dataPath g)
     \<and> map_sum id g_dataPath (globals_after (nativeCleanup g)) = Inr (g_dataPath g)
     \<and> (\<exists>rs out g'. run cs g = Inr (rs, out, g') \<and> g_dataPath g' = g_dataPath g)
     \<and> (\<exists>rs out g'. run (NativeInit (JString path) # cs) g = Inr (rs, out, g')
           \<and> g_dataPath g' = path)"
proof (intro conjI)
  assume p: "list_all proper_args cs" and n: "list_all (\<lambda>c. \<not> is_init c) cs"
  show "map_sum id g_dataPath (globals_after (nativePhonemize (JString text) (JString voice) g)) =
          Inr (g_dataPath g)"
    by (simp add: globals_after_def nativePhonemize_def nativePhonemize_locals_def)
  show "map_sum id g_dataPath (globals_after (nativeCleanup g)) = Inr (g_dataPath g)"
    by (simp add: globals_after_def nativeCleanup_def)
  have keeps: "\<exists>rs out g'. run cs h = Inr (rs, out, g') \<and> g_dataPath g' = g_dataPath h" for h
  proof -
    from run_proper [OF p] obtain out g'
      where r: "run cs h = Inr (map expected_reply cs, out, g')"
      by blast
    from run_keeps_path [OF n r] r show ?thesis
      by blast
  qed
  from keeps show "\<exists>rs out g'. run cs g = Inr (rs, out, g') \<and> g_dataPath g' = g_dataPath g" .
  from keeps [of "g\<lparr>g_dataPath := path, g_initialized := True\<rparr>"]
  show "\<exists>rs out g'. run (NativeInit (JString path) # cs) g = Inr (rs, out, g')
          \<and> g_dataPath g' = path"
    by (auto simp: nativeInit_def)
qed

text \<open>
  The hypotheses of C10 at two conversions around two cleanups, after a \<open>nativeInit\<close>
  with \<open>/data/voices\<close>.
\<close>

theorem dataPath_changed_by_init_only_witness:
  "list_all proper_args
     [NativePhonemize (JString ''hello'') (JString ''en-us''), NativeCleanup, NativeCleanup,
      NativePhonemize (JString ''hello'') (JString ''en-us'')]
   \<and> list_all (\<lambda>c. \<not> is_init c)
       [NativePhonemize (JString ''hello'') (JString ''en-us''), NativeCleanup, NativeCleanup,
        NativePhonemize (JString ''hello'') (JString ''en-us'')]
   \<and> (\<exists>rs out g'.
        run (NativeInit (JString ''/data/voices'')
             # [NativePhonemize (JString ''hello'') (JString ''en-us''), NativeCleanup,
                NativeCleanup, NativePhonemize (JString ''hello'') (JString ''en-us'')])
          initial_globals = Inr (rs, out, g')
        \<and> g_dataPath g' = ''/data/voices'')"
  using dataPath_changed_by_init_only
    [of "[NativePhonemize (JString ''hello'') (JString ''en-us''), NativeCleanup,
          NativeCleanup, NativePhonemize (JString ''hello'') (JString ''en-us'')]"
        "''hello''" "''en-us''" initial_globals "''/data/voices''"]
  by simp

end
